theory Spec2Isabelle
  imports Main
begin

section \<open>JavaScript strings\<close>

text \<open>
  A JavaScript string is modelled as a \<open>string\<close>: one \<open>char\<close> per code unit, restricted to
  the code units below 256 (Latin-1). Every input the claims name is ASCII.
\<close>

definition isSpace :: "char \<Rightarrow> bool" where
  \<comment> \<open>the regular expression class \<open>\s\<close> and the characters \<open>trim\<close> strips: tab, line feed,
      vertical tab, form feed, carriage return, space and no-break space\<close>
  "isSpace c = (c = CHR 0x09 \<or> c = CHR 0x0A \<or> c = CHR 0x0B \<or> c = CHR 0x0C \<or> c = CHR 0x0D
                \<or> c = CHR 0x20 \<or> c = CHR 0xA0)"

definition isLineTerminator :: "char \<Rightarrow> bool" where
  \<comment> \<open>what the regular expression \<open>.\<close> does not match\<close>
  "isLineTerminator c = (c = CHR 0x0A \<or> c = CHR 0x0D)"

definition isWord :: "char \<Rightarrow> bool" where
  \<comment> \<open>the regular expression class \<open>\w\<close>: \<open>[A-Za-z0-9_]\<close>\<close>
  "isWord c = (let n = (of_char c :: nat) in
     (65 \<le> n \<and> n \<le> 90) \<or> (97 \<le> n \<and> n \<le> 122) \<or> (48 \<le> n \<and> n \<le> 57) \<or> n = 95)"

definition lowerChar :: "char \<Rightarrow> char" where
  "lowerChar c = (let n = (of_char c :: nat) in
     if (65 \<le> n \<and> n \<le> 90) \<or> (192 \<le> n \<and> n \<le> 222 \<and> n \<noteq> 215) then char_of (n + 32) else c)"

definition toLowerCase :: "string \<Rightarrow> string" where
  "toLowerCase s = map lowerChar s"

definition trimStart :: "string \<Rightarrow> string" where
  "trimStart s = dropWhile isSpace s"

definition trimEnd :: "string \<Rightarrow> string" where
  "trimEnd s = rev (dropWhile isSpace (rev s))"

definition trim :: "string \<Rightarrow> string" where
  "trim s = trimEnd (trimStart s)"

definition startsWith :: "string \<Rightarrow> string \<Rightarrow> bool" where
  "startsWith s p = (take (length p) s = p)"

fun includesStr :: "string \<Rightarrow> string \<Rightarrow> bool" where
  "includesStr [] sub = (sub = [])"
| "includesStr (c # cs) sub = (startsWith (c # cs) sub \<or> includesStr cs sub)"

fun splitOn :: "char \<Rightarrow> string \<Rightarrow> string list" where
  \<comment> \<open>\<open>s.split(sep)\<close> for a one-character separator: never the empty list\<close>
  "splitOn sep [] = [[]]"
| "splitOn sep (c # cs) =
     (if c = sep then [] # splitOn sep cs
      else (case splitOn sep cs of [] \<Rightarrow> [[c]] | l # ls \<Rightarrow> (c # l) # ls))"

fun joinWith :: "string \<Rightarrow> string list \<Rightarrow> string" where
  "joinWith sep [] = []"
| "joinWith sep [l] = l"
| "joinWith sep (l # ls) = l @ sep @ joinWith sep ls"

definition sliceLast :: "nat \<Rightarrow> string \<Rightarrow> string" where
  \<comment> \<open>\<open>s.slice(-n)\<close> for \<open>n > 0\<close>: the last \<open>n\<close> code units, the whole string when it is shorter\<close>
  "sliceLast n s = drop (length s - n) s"

section \<open>Regular expressions of the source\<close>

text \<open>
  The trigger patterns and the word tests are regular expressions built from single
  characters, character classes, greedy stars and one greedy capture group \<open>(.+)\<close>. They are
  kept as data and run by a backtracking matcher that follows the JavaScript semantics:
  a greedy quantifier takes as much as it can and gives characters back one at a time.
\<close>

datatype atom = Chr char | Space | Word | Dot

datatype item = One atom | Star atom | CapturePlus atom | CaptureMore atom | End

fun atomOk :: "atom \<Rightarrow> char \<Rightarrow> bool" where
  "atomOk (Chr a) c = (c = a)"
| "atomOk Space c = isSpace c"
| "atomOk Word c = isWord c"
| "atomOk Dot c = (\<not> isLineTerminator c)"

text \<open>
  \<open>matchHere p s\<close> matches the pattern at the start of \<open>s\<close>; the result is the text of the
  capture group (empty when the pattern has none). \<open>CaptureMore a\<close> is the state of the group
  \<open>(a+)\<close> after its first character; it never occurs in a pattern as written.
\<close>

fun matchHere :: "item list \<Rightarrow> string \<Rightarrow> string option" where
  "matchHere [] s = Some []"
| "matchHere (End # p) s = (if s = [] then matchHere p s else None)"
| "matchHere (One a # p) [] = None"
| "matchHere (One a # p) (c # cs) = (if atomOk a c then matchHere p cs else None)"
| "matchHere (Star a # p) [] = matchHere p []"
| "matchHere (Star a # p) (c # cs) =
     (if atomOk a c
      then (case matchHere (Star a # p) cs of Some g \<Rightarrow> Some g | None \<Rightarrow> matchHere p (c # cs))
      else matchHere p (c # cs))"
| "matchHere (CapturePlus a # p) [] = None"
| "matchHere (CapturePlus a # p) (c # cs) =
     (if atomOk a c
      then (case matchHere (CaptureMore a # p) cs of Some g \<Rightarrow> Some (c # g) | None \<Rightarrow> None)
      else None)"
| "matchHere (CaptureMore a # p) [] = matchHere p []"
| "matchHere (CaptureMore a # p) (c # cs) =
     (if atomOk a c
      then (case matchHere (CaptureMore a # p) cs of
              Some g \<Rightarrow> Some (c # g)
            | None \<Rightarrow> matchHere p (c # cs))
      else matchHere p (c # cs))"

fun jsMatch :: "item list \<Rightarrow> string \<Rightarrow> string option" where
  \<comment> \<open>\<open>s.match(p)\<close> without the global flag: the leftmost start that matches; group 1\<close>
  "jsMatch p [] = matchHere p []"
| "jsMatch p (c # cs) =
     (case matchHere p (c # cs) of Some g \<Rightarrow> Some g | None \<Rightarrow> jsMatch p cs)"

definition literal :: "string \<Rightarrow> item list" where
  "literal s = map (\<lambda>c. One (Chr c)) s"

section \<open>Documents of the host editor\<close>

text \<open>
  A text document as the providers read it: its identifier, its language, its lines
  (without their terminators) and the line terminator that \<open>getText\<close> puts between lines.
  A position is a line number and a character offset, both counted from 0.
\<close>

record text_document =
  uri :: string
  languageId :: string
  docLines :: "string list"
  eol :: string

type_synonym position = "nat \<times> nat"

datatype error = Error string | Failure string
  \<comment> \<open>\<open>Error m\<close> is a JavaScript \<open>Error\<close> with message \<open>m\<close>; \<open>Failure d\<close> is anything a
      vendor library or the network throws\<close>

definition lineAt :: "text_document \<Rightarrow> nat \<Rightarrow> error + string" where
  \<comment> \<open>\<open>document.lineAt(n).text\<close>; the editor throws on a line number out of range\<close>
  "lineAt doc n =
     (if n < length (docLines doc) then Inr (docLines doc ! n)
      else Inl (Error ''Illegal value for `line`''))"

definition getText :: "text_document \<Rightarrow> position \<Rightarrow> position \<Rightarrow> string" where
  \<comment> \<open>\<open>document.getText(new Range(start, end))\<close> for \<open>start\<close> not after \<open>end\<close> and both lines in
      range; a character offset past the end of its line is cut to the line's length\<close>
  "getText doc start end =
     (let ls = docLines doc; sl = fst start; sc = snd start; el = fst end; ec = snd end in
      if sl = el then take (ec - sc) (drop sc (ls ! sl))
      else drop sc (ls ! sl) @ eol doc
           @ concat (map (\<lambda>l. l @ eol doc) (take (el - sl - 1) (drop (sl + 1) ls)))
           @ take ec (ls ! el))"

section \<open>Comment-trigger detector\<close>

definition slashPattern :: "item list" where
  \<comment> \<open>\<open>/\/\/\s*(.+)$/\<close>\<close>
  "slashPattern = literal ''//'' @ [Star Space, CapturePlus Dot, End]"

definition hashPattern :: "item list" where
  \<comment> \<open>\<open>/#\s*(.+)$/\<close>\<close>
  "hashPattern = literal ''#'' @ [Star Space, CapturePlus Dot, End]"

definition htmlPattern :: "item list" where
  \<comment> \<open>\<open>/<!--\s*(.+)\s*-->$/\<close>\<close>
  "htmlPattern = literal ''<!--'' @ [Star Space, CapturePlus Dot, Star Space] @ literal ''-->'' @ [End]"

definition cssPattern :: "item list" where
  \<comment> \<open>\<open>/\/\*\s*(.+)\s*\*\/$/\<close>\<close>
  "cssPattern = literal ''/*'' @ [Star Space, CapturePlus Dot, Star Space] @ literal ''*/'' @ [End]"

definition triggerPatterns :: "(string \<times> item list) list" where
  "triggerPatterns =
     [(''javascript'', slashPattern), (''typescript'', slashPattern), (''python'', hashPattern),
      (''java'', slashPattern), (''csharp'', slashPattern), (''cpp'', slashPattern),
      (''c'', slashPattern), (''go'', slashPattern), (''rust'', slashPattern),
      (''php'', slashPattern), (''ruby'', hashPattern), (''html'', htmlPattern),
      (''css'', cssPattern)]"

definition codeGenKeywords :: "string list" where
  "codeGenKeywords =
     [''function'', ''class'', ''method'', ''create'', ''generate'', ''implement'',
      ''TODO'', ''FIXME'', ''NOTE'', ''BUG'', ''HACK'', ''XXX'', ''algorithm'',
      ''loop'', ''condition'', ''check'', ''validate'', ''parse'', ''format'',
      ''calculate'', ''compute'', ''process'', ''handle'', ''manage'', ''sort'']"

definition hasCodeGenKeyword :: "string \<Rightarrow> bool" where
  "hasCodeGenKeyword comment =
     list_ex (\<lambda>keyword. includesStr (toLowerCase comment) (toLowerCase keyword)) codeGenKeywords"

record command_args =
  argUri :: string
  argLine :: nat
  argComment :: string
  argLanguage :: string

record completion_item =
  label :: string
  detail :: string
  documentation :: string
  command :: string
  commandTitle :: string
  arguments :: command_args

definition commentItem :: "text_document \<Rightarrow> position \<Rightarrow> string \<Rightarrow> completion_item" where
  \<comment> \<open>the one suggestion: accepting it runs the command with the comment's text\<close>
  "commentItem document position comment =
     \<lparr> label = ''Generate code from comment'',
       detail = ''AI-generated code for: '' @ comment,
       documentation = ''Generates '' @ languageId document
         @ '' code based on the comment: '' @ [CHR 0x22] @ comment @ [CHR 0x22],
       command = ''aiCodeAssistant.generateFromComment'',
       commandTitle = ''Generate Code'',
       arguments = \<lparr> argUri = uri document, argLine = fst position,
                     argComment = comment, argLanguage = languageId document \<rparr> \<rparr>"

definition provideCompletionItems :: "text_document \<Rightarrow> position \<Rightarrow> error + completion_item list" where
  "provideCompletionItems document position =
     (case lineAt document (fst position) of
        Inl e \<Rightarrow> Inl e
      | Inr lineText \<Rightarrow>
          (case map_of triggerPatterns (languageId document) of
             None \<Rightarrow> Inr []
           | Some pattern \<Rightarrow>
               (case jsMatch pattern lineText of
                  None \<Rightarrow> Inr []
                | Some group1 \<Rightarrow>
                    (let comment = trim group1 in
                     if length comment < 3 then Inr []
                     else if \<not> hasCodeGenKeyword comment then Inr []
                     else Inr [commentItem document position comment]))))"

section \<open>Post-processing of a completion\<close>

definition fence :: string where
  "fence = [CHR 0x60, CHR 0x60, CHR 0x60]"

fun afterFence :: "string \<Rightarrow> string option" where
  \<comment> \<open>what follows the first fence in the string\<close>
  "afterFence [] = None"
| "afterFence (c # cs) = (if startsWith (c # cs) fence then Some (drop 3 (c # cs)) else afterFence cs)"

lemma afterFence_shorter: "afterFence s = Some r \<Longrightarrow> length r < length s"
  by (induction s) (auto split: if_splits)

function stripFencedBlocks :: "string \<Rightarrow> string" where
  \<comment> \<open>\<open>replace(/```[\s\S]*?```/g, '')\<close>: from the left, every fence that has a closing fence
      after it is removed together with the shortest text up to that closing fence\<close>
  "stripFencedBlocks [] = []"
| "stripFencedBlocks (c # cs) =
     (if startsWith (c # cs) fence
      then (case afterFence (drop 3 (c # cs)) of
              Some r \<Rightarrow> stripFencedBlocks r
            | None \<Rightarrow> c # stripFencedBlocks cs)
      else c # stripFencedBlocks cs)"
  by pat_completeness auto
termination
proof (relation "measure length")
  fix c cs r
  assume "afterFence (drop 3 (c # cs)) = Some r"
  then have "length r < length (drop 3 (c # cs))" by (rule afterFence_shorter)
  then show "(r, c # cs) \<in> measure length" by simp
qed auto

function stripFences :: "string \<Rightarrow> string" where
  \<comment> \<open>\<open>replace(/```/g, '')\<close>\<close>
  "stripFences [] = []"
| "stripFences (c # cs) =
     (if startsWith (c # cs) fence then stripFences (drop 3 (c # cs)) else c # stripFences cs)"
  by pat_completeness auto
termination
  by (relation "measure length") auto

definition looksLikeExplanation :: "string \<Rightarrow> bool" where
  "looksLikeExplanation line =
     ((startsWith (trim line) ''//'' \<and> includesStr (toLowerCase line) ''explanation'')
      \<or> (startsWith (trim line) ''#'' \<and> includesStr (toLowerCase line) ''explanation'')
      \<or> (startsWith (trim line) ''/*'' \<and> includesStr (toLowerCase line) ''explanation''))"

definition cleanCompletion :: "string \<Rightarrow> string \<Rightarrow> string" where
  "cleanCompletion completion linePrefix =
     (let c1 = stripFences (stripFencedBlocks completion);
          codeLines = filter (\<lambda>line. \<not> looksLikeExplanation line) (splitOn CHR 0x0A c1);
          c2 = trimEnd (joinWith [CHR 0x0A] codeLines);
          linePrefixTrimmed = trim linePrefix;
          c3 = (if linePrefixTrimmed \<noteq> [] \<and> startsWith (trim c2) linePrefixTrimmed
                then drop (length linePrefixTrimmed) (trim c2) else c2)
      in if trim c3 = [] then [] else c3)"

section \<open>Inline completion pipeline\<close>

subsection \<open>The completion cache\<close>

text \<open>
  The cache is a JavaScript \<open>Map\<close> from strings to strings: its entries in insertion order.
  \<open>set\<close> on a key that is present replaces the value in place, on a new key it appends;
  \<open>keys().next().value\<close> is the key inserted first.
\<close>

type_synonym completion_cache = "(string \<times> string) list"

definition cacheHas :: "completion_cache \<Rightarrow> string \<Rightarrow> bool" where
  "cacheHas c k = (map_of c k \<noteq> None)"

definition cacheGet :: "completion_cache \<Rightarrow> string \<Rightarrow> string option" where
  "cacheGet c k = map_of c k"

fun cacheSet :: "completion_cache \<Rightarrow> string \<Rightarrow> string \<Rightarrow> completion_cache" where
  "cacheSet [] k v = [(k, v)]"
| "cacheSet ((k', v') # c) k v = (if k' = k then (k, v) # c else (k', v') # cacheSet c k v)"

fun cacheDelete :: "completion_cache \<Rightarrow> string \<Rightarrow> completion_cache" where
  "cacheDelete [] k = []"
| "cacheDelete ((k', v') # c) k = (if k' = k then c else (k', v') # cacheDelete c k)"

definition cacheStore :: "completion_cache \<Rightarrow> string \<Rightarrow> string \<Rightarrow> completion_cache" where
  \<comment> \<open>\<open>cache.set(cacheKey, cleanedCompletion)\<close>, then the size limit\<close>
  "cacheStore c k v =
     (let c1 = cacheSet c k v in
      if length c1 > 100
      then (case c1 of [] \<Rightarrow> c1 | (firstKey, _) # _ \<Rightarrow> cacheDelete c1 firstKey)
      else c1)"

subsection \<open>One request\<close>

text \<open>
  A request is one call of the provider by the editor. The cancellation token is read at two
  places, before the generation call is issued and after it has returned; the request carries
  what each read sees (a token cancelled while the call is in flight reads \<open>False\<close>, then
  \<open>True\<close>). \<open>featureEnabled\<close> is the setting \<open>enableInlineCompletion\<close> at the time of the call.
\<close>

record request =
  document :: text_document
  position :: position
  featureEnabled :: bool
  cancelledBeforeCall :: bool
  cancelledAfterCall :: bool

text \<open>
  The provider's fields, and the prompts it has sent to the generation service so far.
  \<open>debounceTimer\<close> is the armed timer: the time it is due and the request its callback serves.
  \<open>resolved\<close> lists the promises resolved so far, each with the suggestions it was resolved to.
\<close>

record provider_state =
  cache :: completion_cache
  debounceTimer :: "(nat \<times> request) option"
  generationCalls :: "string list"
  resolved :: "(request \<times> string list) list"

type_synonym ai_service = "nat \<Rightarrow> string \<Rightarrow> error + string"
  \<comment> \<open>\<open>aiService.generateResponse(prompt, 'inline-completion')\<close>: what the call number \<open>n\<close>
      returns or throws for a prompt\<close>

definition midWord :: "string \<Rightarrow> string \<Rightarrow> bool" where
  \<comment> \<open>\<open>linePrefix.match(/\w$/) && lineSuffix.match(/^\w/)\<close>\<close>
  "midWord linePrefix lineSuffix =
     (jsMatch [One Word, End] linePrefix \<noteq> None \<and> matchHere [One Word] lineSuffix \<noteq> None)"

definition contextBefore :: "text_document \<Rightarrow> position \<Rightarrow> string" where
  "contextBefore doc pos = getText doc (fst pos - 50, 0) pos"

definition contextAfter :: "text_document \<Rightarrow> position \<Rightarrow> string" where
  "contextAfter doc pos =
     (let endLine = min (length (docLines doc) - 1) (fst pos + 10) in
      getText doc pos (endLine, length (docLines doc ! endLine)))"

definition cacheKey :: "text_document \<Rightarrow> position \<Rightarrow> string" where
  "cacheKey doc pos = languageId doc @ '':'' @ sliceLast 500 (contextBefore doc pos)"

definition buildCompletionPrompt :: "string \<Rightarrow> string \<Rightarrow> string \<Rightarrow> string \<Rightarrow> string \<Rightarrow> string" where
  "buildCompletionPrompt language ctxBefore ctxAfter linePrefix lineSuffix =
     ''Complete the following '' @ language
     @ '' code. Only provide the completion, no explanations or additional text.''
     @ [CHR 0x0A, CHR 0x0A] @ ''Context before:'' @ [CHR 0x0A] @ ctxBefore
     @ [CHR 0x0A, CHR 0x0A] @ ''Context after:'' @ [CHR 0x0A] @ ctxAfter
     @ [CHR 0x0A, CHR 0x0A] @ ''Complete this line: '' @ linePrefix @ ''|'' @ lineSuffix
     @ [CHR 0x0A, CHR 0x0A] @ ''Completion:''"

text \<open>
  \<open>generateCompletion\<close> is asynchronous: it runs up to the call of the generation service,
  is suspended while the call is awaited, and goes on when the call has returned or thrown.
  Other callbacks of the provider can run while it is suspended, so the two parts are
  separate steps on the provider's state. \<open>beginCompletion\<close> is the part up to the call: it
  either returns at once or issues the call and is suspended, keeping the cache key, the
  line prefix and the prompt. \<open>resumeCompletion\<close> is the part after the call.
\<close>

record pending_call =
  callKey :: string
  callPrefix :: string
  callPrompt :: string

datatype begun = Returned "error + string option" | Awaiting pending_call

definition beginCompletion :: "request \<Rightarrow> provider_state \<Rightarrow> begun \<times> provider_state" where
  "beginCompletion req st =
     (let doc = document req; pos = position req in
      case lineAt doc (fst pos) of
        Inl e \<Rightarrow> (Returned (Inl e), st)
      | Inr lineText \<Rightarrow>
          (let linePrefix = take (snd pos) lineText;
               lineSuffix = drop (snd pos) lineText in
           if midWord linePrefix lineSuffix then (Returned (Inr None), st)
           else
             (let key = cacheKey doc pos in
              if cacheHas (cache st) key then (Returned (Inr (cacheGet (cache st) key)), st)
              else if trim linePrefix = [] \<and> trim lineSuffix = [] then (Returned (Inr None), st)
              else
                (let prompt = buildCompletionPrompt (languageId doc) (contextBefore doc pos)
                                (contextAfter doc pos) linePrefix lineSuffix in
                 if cancelledBeforeCall req then (Returned (Inr None), st)
                 else (Awaiting \<lparr> callKey = key, callPrefix = linePrefix, callPrompt = prompt \<rparr>,
                       st\<lparr>generationCalls := generationCalls st @ [prompt]\<rparr>)))))"

definition resumeCompletion ::
  "pending_call \<Rightarrow> error + string \<Rightarrow> provider_state \<Rightarrow> (error + string option) \<times> provider_state" where
  \<comment> \<open>the second argument is what the awaited call threw or returned\<close>
  "resumeCompletion p reply st =
     (case reply of
        Inl e \<Rightarrow> (Inr None, st)
      | Inr completion \<Rightarrow>
          if completion \<noteq> [] \<and> trim completion \<noteq> []
          then (let cleanedCompletion = cleanCompletion completion (callPrefix p) in
                (Inr (Some cleanedCompletion),
                 st\<lparr>cache := cacheStore (cache st) (callKey p) cleanedCompletion\<rparr>))
          else (Inr None, st))"

definition generateCompletion ::
  "ai_service \<Rightarrow> request \<Rightarrow> provider_state \<Rightarrow> (error + string option) \<times> provider_state" where
  \<comment> \<open>one run of \<open>generateCompletion\<close> during which no other callback of the provider runs:
      the call is answered, and the run resumed, before anything else happens\<close>
  "generateCompletion ai req st =
     (case beginCompletion req st of
        (Returned r, st') \<Rightarrow> (r, st')
      | (Awaiting p, st') \<Rightarrow>
          resumeCompletion p (ai (length (generationCalls st)) (callPrompt p)) st')"

definition timerCallback :: "ai_service \<Rightarrow> request \<Rightarrow> provider_state \<Rightarrow> string list \<times> provider_state" where
  \<comment> \<open>the body of the debounce timer's callback; the list is what the promise resolves to\<close>
  "timerCallback ai req st =
     (case generateCompletion ai req st of
        (Inl e, st') \<Rightarrow> ([], st')
      | (Inr None, st') \<Rightarrow> ([], st')
      | (Inr (Some completion), st') \<Rightarrow>
          (if completion \<noteq> [] \<and> \<not> cancelledAfterCall req then [completion] else [], st'))"

subsection \<open>Debouncing\<close>

text \<open>
  Time is counted in milliseconds. \<open>provideInlineCompletionItems now req\<close> is the call of the
  provider at time \<open>now\<close>: with the feature off it resolves at once to no suggestion and leaves
  the timer alone; otherwise it clears the armed timer and arms a new one, due 300 ms later.
  \<open>fireTimer\<close> is the timer going off: its callback runs and resolves the promise of the
  request it serves. A promise whose timer was cleared is never resolved.
\<close>

definition provideInlineCompletionItems :: "nat \<Rightarrow> request \<Rightarrow> provider_state \<Rightarrow> provider_state" where
  "provideInlineCompletionItems now req st =
     (if \<not> featureEnabled req then st\<lparr>resolved := resolved st @ [(req, [])]\<rparr>
      else st\<lparr>debounceTimer := Some (now + 300, req)\<rparr>)"

definition fireTimer :: "ai_service \<Rightarrow> provider_state \<Rightarrow> provider_state" where
  "fireTimer ai st =
     (case debounceTimer st of
        None \<Rightarrow> st
      | Some (due, req) \<Rightarrow>
          (case timerCallback ai req (st\<lparr>debounceTimer := None\<rparr>) of
             (items, st') \<Rightarrow> st'\<lparr>resolved := resolved st' @ [(req, items)]\<rparr>))"

definition advanceTo :: "ai_service \<Rightarrow> nat \<Rightarrow> provider_state \<Rightarrow> provider_state" where
  \<comment> \<open>the event loop up to time \<open>t\<close>: the armed timer goes off if it is due\<close>
  "advanceTo ai t st =
     (case debounceTimer st of
        None \<Rightarrow> st
      | Some (due, req) \<Rightarrow> if due \<le> t then fireTimer ai st else st)"

fun runTriggers :: "ai_service \<Rightarrow> provider_state \<Rightarrow> (nat \<times> request) list \<Rightarrow> provider_state" where
  \<comment> \<open>a sequence of provider calls, each with the time at which it happens\<close>
  "runTriggers ai st [] = st"
| "runTriggers ai st ((t, req) # rest) =
     runTriggers ai (provideInlineCompletionItems t req (advanceTo ai t st)) rest"

fun withinWindow :: "(nat \<times> request) list \<Rightarrow> bool" where
  \<comment> \<open>every trigger comes less than 300 ms after the one before it\<close>
  "withinWindow [] = True"
| "withinWindow [e] = True"
| "withinWindow (e1 # e2 # es) = (fst e1 \<le> fst e2 \<and> fst e2 < fst e1 + 300 \<and> withinWindow (e2 # es))"

section \<open>Generation service and provider adapters\<close>

text \<open>
  The settings under \<open>aiCodeAssistant\<close>; \<open>None\<close> is a setting that is not set. The sampling
  temperature is a floating-point number that is only copied into request bodies; it is
  left out.
\<close>

record configuration =
  provider :: "string option"
  maxTokens :: "int option"
  groqApiKey :: "string option"
  groqModel :: "string option"
  perplexityApiKey :: "string option"
  perplexityModel :: "string option"
  huggingfaceApiKey :: "string option"
  huggingfaceModel :: "string option"
  ollamaBaseUrl :: "string option"
  ollamaModel :: "string option"
  togetheraiApiKey :: "string option"
  togetheraiModel :: "string option"
  replicateApiKey :: "string option"
  replicateModel :: "string option"

definition getOr :: "'a option \<Rightarrow> 'a \<Rightarrow> 'a" where
  \<comment> \<open>\<open>config.get(key, default)\<close>\<close>
  "getOr v d = (case v of None \<Rightarrow> d | Some x \<Rightarrow> x)"

definition truthy :: "string option \<Rightarrow> bool" where
  \<comment> \<open>a string that is neither undefined, null nor empty\<close>
  "truthy v = (case v of None \<Rightarrow> False | Some x \<Rightarrow> x \<noteq> [])"

definition orEmpty :: "string option \<Rightarrow> string" where
  \<comment> \<open>\<open>v || ''\<close>\<close>
  "orEmpty v = (case v of None \<Rightarrow> [] | Some x \<Rightarrow> x)"

text \<open>
  The service keeps two client handles; each holds the key it was built with.
\<close>

record service_state =
  groqClient :: "string option"
  hfClient :: "string option"

definition initializeClients :: "configuration \<Rightarrow> service_state \<Rightarrow> service_state" where
  "initializeClients cfg svc =
     (let svc1 = (if truthy (groqApiKey cfg) then svc\<lparr>groqClient := groqApiKey cfg\<rparr> else svc)
      in if truthy (huggingfaceApiKey cfg) then svc1\<lparr>hfClient := huggingfaceApiKey cfg\<rparr> else svc1)"

definition newService :: "configuration \<Rightarrow> service_state" where
  \<comment> \<open>the constructor\<close>
  "newService cfg = initializeClients cfg \<lparr>groqClient = None, hfClient = None\<rparr>"

definition configurationChanged :: "configuration \<Rightarrow> service_state \<Rightarrow> service_state" where
  \<comment> \<open>the listener for a change of the settings; \<open>cfg\<close> is the settings after the change\<close>
  "configurationChanged cfg svc = initializeClients cfg svc"

text \<open>
  Every request that leaves the process is recorded, in order. The vendors' answers are
  given: for each single-request adapter either what the call throws or the text field of the
  answer (\<open>None\<close> when the field is absent); for Replicate the answer to the creation request
  (the prediction's identifier) and, for each status check counted from 0, its status and
  its output fragments (\<open>None\<close> when the answer has no output). An answer of a shape that
  makes the adapter's own code throw counts as a throw.
\<close>

text \<open>
  The arguments: for the two client libraries the key the client holds, the model, the prompt
  and the token limit; for a POST the address, the authorization header if any, the model,
  the prompt and the token limit; for a GET the address and the authorization header.
\<close>

datatype network_call =
    GroqCreate string string string int
  | HfTextGeneration string string string int
  | HttpPost string "string option" string string int
  | HttpGet string string

record backend =
  groqReply :: "error + string option"
  perplexityReply :: "error + string option"
  huggingfaceReply :: "error + string option"
  ollamaReply :: "error + string option"
  togetheraiReply :: "error + string option"
  replicateCreate :: "error + string"
  replicateStatus :: "nat \<Rightarrow> error + (string \<times> string list option)"

type_synonym response = "(error + string) \<times> network_call list"

definition afterCall :: "network_call \<Rightarrow> error + string option \<Rightarrow> response" where
  \<comment> \<open>one request and the extraction of the text: \<open>field || ''\<close>\<close>
  "afterCall call reply = (case reply of Inl e \<Rightarrow> (Inl e, [call]) | Inr text \<Rightarrow> (Inr (orEmpty text), [call]))"

definition generateGroqResponse :: "service_state \<Rightarrow> configuration \<Rightarrow> backend \<Rightarrow> string \<Rightarrow> int \<Rightarrow> response" where
  "generateGroqResponse svc cfg be prompt maxTok =
     (case groqClient svc of
        None \<Rightarrow> (Inl (Error ''Groq API key not configured''), [])
      | Some clientKey \<Rightarrow>
          afterCall (GroqCreate clientKey (getOr (groqModel cfg) ''llama-3.3-70b-versatile'') prompt maxTok)
            (groqReply be))"

definition generatePerplexityResponse :: "configuration \<Rightarrow> backend \<Rightarrow> string \<Rightarrow> int \<Rightarrow> response" where
  "generatePerplexityResponse cfg be prompt maxTok =
     (if \<not> truthy (perplexityApiKey cfg) then (Inl (Error ''Perplexity API key not configured''), [])
      else afterCall (HttpPost ''https://api.perplexity.ai/chat/completions''
                        (Some (''Bearer '' @ orEmpty (perplexityApiKey cfg)))
                        (getOr (perplexityModel cfg) ''llama-3.1-sonar-large-128k-online'') prompt maxTok)
             (perplexityReply be))"

definition generateHuggingFaceResponse :: "service_state \<Rightarrow> configuration \<Rightarrow> backend \<Rightarrow> string \<Rightarrow> int \<Rightarrow> response" where
  "generateHuggingFaceResponse svc cfg be prompt maxTok =
     (case hfClient svc of
        None \<Rightarrow> (Inl (Error ''HuggingFace API key not configured''), [])
      | Some clientKey \<Rightarrow>
          afterCall (HfTextGeneration clientKey (getOr (huggingfaceModel cfg) ''microsoft/DialoGPT-large'') prompt maxTok)
            (huggingfaceReply be))"

definition generateOllamaResponse :: "configuration \<Rightarrow> backend \<Rightarrow> string \<Rightarrow> int \<Rightarrow> response" where
  "generateOllamaResponse cfg be prompt maxTok =
     afterCall (HttpPost (getOr (ollamaBaseUrl cfg) ''http://localhost:11434'' @ ''/api/generate'') None
                  (getOr (ollamaModel cfg) ''codellama'') prompt maxTok)
       (ollamaReply be)"

definition generateTogetherAIResponse :: "configuration \<Rightarrow> backend \<Rightarrow> string \<Rightarrow> int \<Rightarrow> response" where
  "generateTogetherAIResponse cfg be prompt maxTok =
     (if \<not> truthy (togetheraiApiKey cfg) then (Inl (Error ''Together AI API key not configured''), [])
      else afterCall (HttpPost ''https://api.together.xyz/inference''
                        (Some (''Bearer '' @ orEmpty (togetheraiApiKey cfg)))
                        (getOr (togetheraiModel cfg) ''meta-llama/Llama-2-70b-chat-hf'') prompt maxTok)
             (togetheraiReply be))"

subsection \<open>The polling adapter\<close>

definition maxAttempts :: nat where
  "maxAttempts = 30"

text \<open>
  The loop \<open>while (!result && attempts < maxAttempts)\<close>. \<open>result\<close> starts as \<open>null\<close> (\<open>None\<close>);
  the status check of the iteration with \<open>attempts = i\<close> is check number \<open>i\<close> of the backend.
  The value is the loop's final \<open>result\<close>, or what was thrown, with the status checks made.
\<close>

function replicatePoll ::
  "(nat \<Rightarrow> error + (string \<times> string list option)) \<Rightarrow> network_call \<Rightarrow> string option \<Rightarrow> nat
   \<Rightarrow> (error + string option) \<times> network_call list" where
  "replicatePoll status check result attempts =
     (if \<not> truthy result \<and> attempts < maxAttempts
      then (case status attempts of
              Inl e \<Rightarrow> (Inl e, [check])
            | Inr (state, output) \<Rightarrow>
                if state = ''succeeded''
                then (case replicatePoll status check
                             (Some (orEmpty (map_option concat output))) (attempts + 1) of
                        (r, calls) \<Rightarrow> (r, check # calls))
                else if state = ''failed''
                then (Inl (Error ''Replicate prediction failed''), [check])
                else (case replicatePoll status check result (attempts + 1) of
                        (r, calls) \<Rightarrow> (r, check # calls)))
      else (Inr result, []))"
  by pat_completeness auto
termination
  by (relation "measure (\<lambda>(status, check, result, attempts). maxAttempts - attempts)") auto

declare replicatePoll.simps [simp del]

definition createRequest :: "configuration \<Rightarrow> string \<Rightarrow> int \<Rightarrow> network_call" where
  \<comment> \<open>the request that creates the prediction\<close>
  "createRequest cfg prompt maxTok =
     HttpPost ''https://api.replicate.com/v1/predictions''
       (Some (''Token '' @ orEmpty (replicateApiKey cfg)))
       (getOr (replicateModel cfg) ''meta/llama-2-70b-chat'') prompt maxTok"

definition statusRequest :: "configuration \<Rightarrow> string \<Rightarrow> network_call" where
  \<comment> \<open>one status check of the prediction\<close>
  "statusRequest cfg predictionId =
     HttpGet (''https://api.replicate.com/v1/predictions/'' @ predictionId)
       (''Token '' @ orEmpty (replicateApiKey cfg))"

definition generateReplicateResponse :: "configuration \<Rightarrow> backend \<Rightarrow> string \<Rightarrow> int \<Rightarrow> response" where
  "generateReplicateResponse cfg be prompt maxTok =
     (if \<not> truthy (replicateApiKey cfg) then (Inl (Error ''Replicate API key not configured''), [])
      else
        (case replicateCreate be of
           Inl e \<Rightarrow> (Inl e, [createRequest cfg prompt maxTok])
         | Inr predictionId \<Rightarrow>
             (case replicatePoll (replicateStatus be) (statusRequest cfg predictionId) None 0 of
                (Inl e, calls) \<Rightarrow> (Inl e, createRequest cfg prompt maxTok # calls)
              | (Inr result, calls) \<Rightarrow> (Inr (orEmpty result), createRequest cfg prompt maxTok # calls))))"

definition generateResponse :: "service_state \<Rightarrow> configuration \<Rightarrow> backend \<Rightarrow> string \<Rightarrow> response" where
  "generateResponse svc cfg be prompt =
     (let prov = getOr (provider cfg) ''groq'';
          maxTok = getOr (maxTokens cfg) 2048 in
      if prov = ''groq'' then generateGroqResponse svc cfg be prompt maxTok
      else if prov = ''perplexity'' then generatePerplexityResponse cfg be prompt maxTok
      else if prov = ''huggingface'' then generateHuggingFaceResponse svc cfg be prompt maxTok
      else if prov = ''ollama'' then generateOllamaResponse cfg be prompt maxTok
      else if prov = ''togetherai'' then generateTogetherAIResponse cfg be prompt maxTok
      else if prov = ''replicate'' then generateReplicateResponse cfg be prompt maxTok
      else (Inl (Error (''Unsupported provider: '' @ prov)), []))"

definition statusChecks :: "network_call list \<Rightarrow> nat" where
  \<comment> \<open>the number of status checks (GET requests) among the recorded requests\<close>
  "statusChecks calls = length (filter (\<lambda>c. case c of HttpGet u a \<Rightarrow> True | _ \<Rightarrow> False) calls)"

definition nonTerminal :: "error + (string \<times> string list option) \<Rightarrow> bool" where
  \<comment> \<open>a status check that is answered, with a status that is neither \<open>succeeded\<close> nor \<open>failed\<close>\<close>
  "nonTerminal reply =
     (case reply of Inl e \<Rightarrow> False
      | Inr (state, output) \<Rightarrow> state \<noteq> ''succeeded'' \<and> state \<noteq> ''failed'')"

definition noResult :: "error + (string \<times> string list option) \<Rightarrow> bool" where
  \<comment> \<open>a status check that is answered and is not \<open>failed\<close>, and whose output, when the status
      is \<open>succeeded\<close>, is absent or joins to the empty string\<close>
  "noResult reply =
     (case reply of Inl e \<Rightarrow> False
      | Inr (state, output) \<Rightarrow>
          state \<noteq> ''failed'' \<and> (state \<noteq> ''succeeded'' \<or> orEmpty (map_option concat output) = []))"

section \<open>Example inputs\<close>

definition oneLineDocument :: "string \<Rightarrow> string \<Rightarrow> text_document" where
  \<comment> \<open>a document of one line in the given language\<close>
  "oneLineDocument language line =
     \<lparr> uri = ''file:///example'', languageId = language, docLines = [line], eol = [CHR 0x0A] \<rparr>"

definition initialState :: provider_state where
  \<comment> \<open>the provider as constructed: empty cache, no timer\<close>
  "initialState = \<lparr> cache = [], debounceTimer = None, generationCalls = [], resolved = [] \<rparr>"

definition requestAt :: "string \<Rightarrow> nat \<Rightarrow> bool \<Rightarrow> bool \<Rightarrow> request" where
  \<comment> \<open>a request in a one-line TypeScript document, the cursor at the given offset, with what
      the two reads of the cancellation token see\<close>
  "requestAt line character seenBefore seenAfter =
     \<lparr> document = oneLineDocument ''typescript'' line, position = (0, character),
       featureEnabled = True, cancelledBeforeCall = seenBefore, cancelledAfterCall = seenAfter \<rparr>"

definition answering :: "string \<Rightarrow> ai_service" where
  \<comment> \<open>a generation service that answers every prompt with the same text\<close>
  "answering text = (\<lambda>n prompt. Inr text)"

definition distinctEntries :: "nat \<Rightarrow> (string \<times> string) list" where
  \<comment> \<open>\<open>n\<close> cache entries with distinct keys\<close>
  "distinctEntries n =
     map (\<lambda>i. (''typescript:'' @ replicate i CHR ''x'', replicate i CHR ''y'')) [0..<n]"

definition afterFirstRequest :: provider_state where
  \<comment> \<open>the state after the request on \<open>const x = \<close> was answered with \<open>5;\<close>\<close>
  "afterFirstRequest =
     initialState\<lparr> cache := [(''typescript:const x = '', ''5;'')],
                   generationCalls :=
                     [buildCompletionPrompt ''typescript'' ''const x = '' [] ''const x = '' []] \<rparr>"

definition burst :: "(nat \<times> request) list" where
  \<comment> \<open>three calls while the user types \<open>const x = \<close>, 120 ms and 250 ms apart\<close>
  "burst = [(0, requestAt ''const x'' 7 False False),
            (120, requestAt ''const x ='' 9 False False),
            (370, requestAt ''const x = '' 10 False False)]"

definition noSettings :: configuration where
  \<comment> \<open>no setting is set: every key is missing, every other setting takes its default\<close>
  "noSettings =
     \<lparr> provider = None, maxTokens = None, groqApiKey = None, groqModel = None,
       perplexityApiKey = None, perplexityModel = None,
       huggingfaceApiKey = None, huggingfaceModel = None,
       ollamaBaseUrl = None, ollamaModel = None,
       togetheraiApiKey = None, togetheraiModel = None,
       replicateApiKey = None, replicateModel = None \<rparr>"

definition replicateSettings :: configuration where
  "replicateSettings = noSettings\<lparr> provider := Some ''replicate'', replicateApiKey := Some ''r8_key'' \<rparr>"

definition backendWith :: "(nat \<Rightarrow> error + (string \<times> string list option)) \<Rightarrow> backend" where
  \<comment> \<open>every vendor answers \<open>hi\<close>; Replicate creates the prediction \<open>p1\<close> and answers the
      status checks as given\<close>
  "backendWith status =
     \<lparr> groqReply = Inr (Some ''hi''), perplexityReply = Inr (Some ''hi''),
       huggingfaceReply = Inr (Some ''hi''), ollamaReply = Inr (Some ''hi''),
       togetheraiReply = Inr (Some ''hi''), replicateCreate = Inr ''p1'',
       replicateStatus = status \<rparr>"

definition succeedsOnThird :: "nat \<Rightarrow> error + (string \<times> string list option)" where
  "succeedsOnThird i = (if i = 2 then Inr (''succeeded'', Some [''a'', ''b'']) else Inr (''processing'', None))"

definition neverTerminal :: "nat \<Rightarrow> error + (string \<times> string list option)" where
  "neverTerminal i = Inr (''processing'', None)"

definition failsOnSecond :: "nat \<Rightarrow> error + (string \<times> string list option)" where
  "failsOnSecond i = (if i = 1 then Inr (''failed'', None) else Inr (''starting'', None))"

definition succeedsEmpty :: "nat \<Rightarrow> error + (string \<times> string list option)" where
  "succeedsEmpty i = (if i = 4 then Inr (''succeeded'', Some []) else if i = 7 then Inr (''succeeded'', None)
                      else Inr (''processing'', None))"

section \<open>Properties of the comment-trigger detector\<close>

lemma match_create_comment:
  "jsMatch slashPattern ''// create a function to validate email addresses''
     = Some ''create a function to validate email addresses''"
  by code_simp

lemma trim_create_comment:
  "trim ''create a function to validate email addresses''
     = ''create a function to validate email addresses''"
  by code_simp

lemma keyword_create_comment:
  "hasCodeGenKeyword ''create a function to validate email addresses''"
  by code_simp

lemma match_note_comment: "jsMatch slashPattern ''// just a note'' = Some ''just a note''"
  by code_simp

lemma trim_note_comment: "trim ''just a note'' = ''just a note''"
  by code_simp

lemma keyword_note_comment: "hasCodeGenKeyword ''just a note''"
  by code_simp

lemma match_remark_comment: "jsMatch slashPattern ''// just a remark'' = Some ''just a remark''"
  by code_simp

lemma trim_remark_comment: "trim ''just a remark'' = ''just a remark''"
  by code_simp

lemma keyword_remark_comment: "\<not> hasCodeGenKeyword ''just a remark''"
  by code_simp

lemma provideCompletionItems_on_match:
  assumes "lineAt doc (fst pos) = Inr line"
    and "map_of triggerPatterns (languageId doc) = Some pat"
    and "jsMatch pat line = Some g"
  shows "provideCompletionItems doc pos =
           (if length (trim g) < 3 \<or> \<not> hasCodeGenKeyword (trim g) then Inr []
            else Inr [commentItem doc pos (trim g)])"
  using assms by (simp add: provideCompletionItems_def Let_def)

text \<open>
  C1, as the claim states it, fails: in a TypeScript document the line \<open>// just a note\<close> is
  offered one suggestion. The keyword list holds \<open>NOTE\<close>, and keywords are compared in lower
  case as substrings of the comment, so \<open>note\<close> is found.
\<close>

theorem just_a_note_is_offered_a_suggestion:
  "provideCompletionItems (oneLineDocument ''typescript'' ''// just a note'') (0, 14)
     = Inr [commentItem (oneLineDocument ''typescript'' ''// just a note'') (0, 14) ''just a note'']"
  by code_simp

text \<open>
  C1, amended: in a language whose trigger pattern is the \<open>//\<close> pattern, the line
  \<open>// create a function to validate email addresses\<close> is offered exactly one suggestion,
  the line \<open>// just a note\<close> is offered exactly one suggestion too (keyword \<open>NOTE\<close>), and the
  line \<open>// just a remark\<close>, whose comment holds no keyword, is offered none.
\<close>

theorem comment_detector_examples:
  assumes "map_of triggerPatterns (languageId doc) = Some slashPattern"
  shows "(lineAt doc (fst pos) = Inr ''// create a function to validate email addresses'' \<longrightarrow>
            provideCompletionItems doc pos
              = Inr [commentItem doc pos ''create a function to validate email addresses''])
       \<and> (lineAt doc (fst pos) = Inr ''// just a note'' \<longrightarrow>
            provideCompletionItems doc pos = Inr [commentItem doc pos ''just a note''])
       \<and> (lineAt doc (fst pos) = Inr ''// just a remark'' \<longrightarrow>
            provideCompletionItems doc pos = Inr [])"
proof (intro conjI impI)
  assume "lineAt doc (fst pos) = Inr ''// create a function to validate email addresses''"
  from provideCompletionItems_on_match [OF this assms match_create_comment]
  show "provideCompletionItems doc pos
          = Inr [commentItem doc pos ''create a function to validate email addresses'']"
    by (simp only: trim_create_comment keyword_create_comment) simp
next
  assume "lineAt doc (fst pos) = Inr ''// just a note''"
  from provideCompletionItems_on_match [OF this assms match_note_comment]
  show "provideCompletionItems doc pos = Inr [commentItem doc pos ''just a note'']"
    by (simp only: trim_note_comment keyword_note_comment) simp
next
  assume "lineAt doc (fst pos) = Inr ''// just a remark''"
  from provideCompletionItems_on_match [OF this assms match_remark_comment]
  show "provideCompletionItems doc pos = Inr []"
    by (simp only: trim_remark_comment keyword_remark_comment) simp
qed

theorem comment_detector_examples_witness:
  "provideCompletionItems
     (oneLineDocument ''java'' ''// create a function to validate email addresses'') (0, 49)
     = Inr [commentItem
              (oneLineDocument ''java'' ''// create a function to validate email addresses'') (0, 49)
              ''create a function to validate email addresses'']
   \<and> provideCompletionItems (oneLineDocument ''go'' ''// just a note'') (0, 14)
       = Inr [commentItem (oneLineDocument ''go'' ''// just a note'') (0, 14) ''just a note'']
   \<and> provideCompletionItems (oneLineDocument ''rust'' ''// just a remark'') (0, 16) = Inr []"
  using comment_detector_examples
          [of "oneLineDocument ''java'' ''// create a function to validate email addresses''" "(0, 49)"]
        comment_detector_examples [of "oneLineDocument ''go'' ''// just a note''" "(0, 14)"]
        comment_detector_examples [of "oneLineDocument ''rust'' ''// just a remark''" "(0, 16)"]
  by (simp add: oneLineDocument_def lineAt_def triggerPatterns_def)

section \<open>Properties of the post-processing\<close>

text \<open>
  C2: with line prefix \<open>const x = \<close> and raw output \<open>const x = 5;\<close> the cleaned result is
  \<open> 5;\<close>, with a blank in front: the echo is compared with, and cut by the length of, the
  trimmed prefix \<open>const x =\<close>, so the blank that ended the echoed prefix stays.
\<close>

theorem cleanCompletion_echoed_prefix:
  "cleanCompletion ''const x = 5;'' ''const x = '' = '' 5;''"
  by code_simp

section \<open>Properties of the completion cache\<close>

lemma cacheSet_absent: "\<not> cacheHas c k \<Longrightarrow> cacheSet c k v = c @ [(k, v)]"
  by (induction c) (auto simp: cacheHas_def)

lemma length_cacheSet_present: "cacheHas c k \<Longrightarrow> length (cacheSet c k v) = length c"
  by (induction c) (auto simp: cacheHas_def)

lemma cacheStore_absent:
  assumes "\<not> cacheHas c k"
  shows "cacheStore c k v = (if length c \<ge> 100 then tl c @ [(k, v)] else c @ [(k, v)])"
proof -
  have s: "cacheSet c k v = c @ [(k, v)]" using assms by (rule cacheSet_absent)
  show ?thesis
  proof (cases c)
    case Nil
    then show ?thesis by (simp add: cacheStore_def)
  next
    case (Cons e es)
    obtain k0 v0 where e: "e = (k0, v0)" by (cases e)
    from assms Cons e have "k0 \<noteq> k" by (auto simp: cacheHas_def)
    then show ?thesis
      unfolding cacheStore_def Let_def s using Cons e by simp
  qed
qed

lemma length_cacheStore: "length c \<le> 100 \<Longrightarrow> length (cacheStore c k v) \<le> 100"
proof (cases "cacheHas c k")
  case True
  assume "length c \<le> 100"
  with True show ?thesis by (simp add: cacheStore_def Let_def length_cacheSet_present)
next
  case False
  assume "length c \<le> 100"
  with False show ?thesis by (auto simp add: cacheStore_absent)
qed

lemma length_insertions:
  "length c \<le> 100 \<Longrightarrow> length (foldl (\<lambda>c kv. cacheStore c (fst kv) (snd kv)) c kvs) \<le> 100"
  by (induction kvs arbitrary: c) (simp_all add: length_cacheStore)


lemma generateCompletion_cache_bound:
  "length (cache st) \<le> 100 \<Longrightarrow> length (cache (snd (generateCompletion ai req st))) \<le> 100"
  by (auto simp add: generateCompletion_def beginCompletion_def resumeCompletion_def Let_def length_cacheStore split: sum.splits)

lemma cacheHas_iff: "cacheHas c k \<longleftrightarrow> k \<in> fst ` set c"
  by (simp add: cacheHas_def map_of_eq_None_iff)

lemma insertions_distinct:
  assumes "distinct (map fst (c @ kvs))" and "length c \<le> 100"
  shows "foldl (\<lambda>c kv. cacheStore c (fst kv) (snd kv)) c kvs
           = drop (length (c @ kvs) - 100) (c @ kvs)"
  using assms
proof (induction kvs arbitrary: c)
  case Nil
  then show ?case by simp
next
  case (Cons kv kvs)
  let ?store = "foldl (\<lambda>c kv. cacheStore c (fst kv) (snd kv))"
  obtain k v where kv: "kv = (k, v)" by (cases kv)
  from Cons.prems kv have absent: "\<not> cacheHas c k" by (auto simp add: cacheHas_iff)
  have step: "?store c ((k, v) # kvs) = ?store (cacheStore c k v) kvs" by simp
  show ?case
  proof (cases "length c < 100")
    case True
    then have c': "cacheStore c k v = c @ [(k, v)]" by (simp add: cacheStore_absent [OF absent])
    from Cons.prems kv True
    have "distinct (map fst ((c @ [(k, v)]) @ kvs))" "length (c @ [(k, v)]) \<le> 100"
      by auto
    from Cons.IH [OF this]
    have "?store (c @ [(k, v)]) kvs = drop (length (c @ kv # kvs) - 100) (c @ kv # kvs)"
      by (simp add: kv)
    then show ?thesis by (simp only: kv step c')
  next
    case False
    with Cons.prems have len: "length c = 100" by simp
    then obtain e es where c: "c = e # es" by (cases c) auto
    from len c have c': "cacheStore c k v = es @ [(k, v)]"
      using cacheStore_absent [OF absent, of v] by simp
    from Cons.prems kv c len
    have "distinct (map fst ((es @ [(k, v)]) @ kvs))" "length (es @ [(k, v)]) \<le> 100"
      by auto
    from Cons.IH [OF this] len c
    have "?store (es @ [(k, v)]) kvs = drop (length (c @ kv # kvs) - 100) (c @ kv # kvs)"
      by (simp add: kv)
    then show ?thesis by (simp only: kv step c')
  qed
qed

lemma distinctEntries_distinct: "distinct (map fst (distinctEntries n))"
  by (simp add: distinctEntries_def distinct_map inj_on_def comp_def)

lemma length_distinctEntries: "length (distinctEntries n) = n"
  by (simp add: distinctEntries_def)

lemma distinctEntries_new_key: "\<not> cacheHas (distinctEntries n) ''python:z''"
  by (auto simp add: distinctEntries_def cacheHas_iff)

text \<open>
  C7: the capacity is exactly 100. Storing a fingerprint that is not in the cache appends
  it and evicts nothing while the cache holds fewer than 100 entries; on a cache of 100
  entries it removes exactly the entry inserted first and appends the new one, so 100
  entries remain. A store never takes a cache of at most 100 entries past 100. Starting
  from the empty cache, storing any sequence of distinct fingerprints leaves exactly the
  last 100 of them, in the order of insertion (all of them when there are at most 100); and
  any sequence of stores at all leaves at most 100 entries.
\<close>

theorem cache_bound:
  "(\<not> cacheHas c k \<and> length c < 100 \<longrightarrow> cacheStore c k v = c @ [(k, v)])
   \<and> (\<not> cacheHas c k \<and> length c = 100 \<longrightarrow>
        cacheStore c k v = tl c @ [(k, v)] \<and> length (cacheStore c k v) = 100)
   \<and> (length c \<le> 100 \<longrightarrow> length (cacheStore c k v) \<le> 100)
   \<and> (distinct (map fst kvs) \<longrightarrow>
        foldl (\<lambda>c kv. cacheStore c (fst kv) (snd kv)) [] kvs = drop (length kvs - 100) kvs)
   \<and> length (foldl (\<lambda>c kv. cacheStore c (fst kv) (snd kv)) [] kvs) \<le> 100"
  using insertions_distinct [of "[]" kvs]
  by (simp add: cacheStore_absent length_cacheStore length_insertions)

theorem cache_bound_witness:
  "foldl (\<lambda>c kv. cacheStore c (fst kv) (snd kv)) [] (distinctEntries 100) = distinctEntries 100
   \<and> foldl (\<lambda>c kv. cacheStore c (fst kv) (snd kv)) [] (distinctEntries 101)
       = tl (distinctEntries 101)
   \<and> length (foldl (\<lambda>c kv. cacheStore c (fst kv) (snd kv)) [] (distinctEntries 101)) = 100
   \<and> cacheStore (distinctEntries 100) ''python:z'' ''w''
       = tl (distinctEntries 100) @ [(''python:z'', ''w'')]
   \<and> cacheStore (distinctEntries 99) ''python:z'' ''w''
       = distinctEntries 99 @ [(''python:z'', ''w'')]"
  using cache_bound [of "distinctEntries 100" "''python:z''" "''w''" "distinctEntries 100"]
    cache_bound [of "distinctEntries 99" "''python:z''" "''w''" "distinctEntries 101"]
  by (simp add: distinctEntries_distinct length_distinctEntries distinctEntries_new_key drop_Suc)

section \<open>Properties of one request\<close>

text \<open>
  C3, as the claim states it, fails: a request whose token is cancelled while the generation
  call is in flight (the read before the call sees \<open>False\<close>, the read after it \<open>True\<close>)
  still writes the cleaned result to the cache.
\<close>

theorem cancelled_in_flight_is_cached:
  "cache (snd (timerCallback (answering ''5;'') (requestAt ''const x = '' 10 False True) initialState))
     = [(''typescript:const x = '', ''5;'')]"
  by code_simp

text \<open>
  C3, amended: a request that is cancelled before its generation call completes never emits
  a suggestion; and when the cancellation is already visible at the read before the call,
  no generation call is issued and the provider's state, the cache included, is unchanged.
\<close>

theorem cancelled_request:
  assumes "cancelledAfterCall req"
  shows "fst (timerCallback ai req st) = []
       \<and> (cancelledBeforeCall req \<longrightarrow> snd (timerCallback ai req st) = st)"
  using assms
  by (auto simp add: timerCallback_def generateCompletion_def beginCompletion_def resumeCompletion_def Let_def
           split: sum.splits option.splits prod.splits)

theorem cancelled_request_witness:
  "fst (timerCallback (answering ''5;'') (requestAt ''const x = '' 10 False True) initialState) = []
   \<and> fst (timerCallback (answering ''5;'') (requestAt ''const x = '' 10 True True) initialState) = []
   \<and> snd (timerCallback (answering ''5;'') (requestAt ''const x = '' 10 True True) initialState)
       = initialState"
  using cancelled_request [of "requestAt ''const x = '' 10 False True" "answering ''5;''" initialState]
    cancelled_request [of "requestAt ''const x = '' 10 True True" "answering ''5;''" initialState]
  by (simp add: requestAt_def)

text \<open>
  C4: a request on a line that is blank on both sides of the cursor should produce no
  suggestion whatever the cache holds; the source says so itself (\<open>Don't complete if line is
  empty or only whitespace\<close>). But the blank-line test comes after the cache probe, unlike the
  mid-word test, which comes before it. After a request on the line \<open>  foo\<close> with the cursor
  after the blanks has cached \<open>bar\<close>, a request on the blank line \<open>  \<close> has the same
  fingerprint and is answered with the suggestion \<open>bar\<close>.
\<close>

theorem blank_line_served_from_cache:
  "fst (timerCallback (answering ''bar'') (requestAt ''  '' 2 False False)
          (snd (timerCallback (answering ''bar'') (requestAt ''  foo'' 2 False False) initialState)))
     = [''bar'']"
  by code_simp

text \<open>
  The blank-line test does its work when the cache holds no entry for the fingerprint: then
  the request produces no suggestion, issues no generation call and leaves the state
  unchanged.
\<close>

lemma blank_line_without_cache_entry:
  assumes "lineAt (document req) (fst (position req)) = Inr lineText"
    and "trim (take (snd (position req)) lineText) = []"
    and "trim (drop (snd (position req)) lineText) = []"
    and "\<not> cacheHas (cache st) (cacheKey (document req) (position req))"
  shows "timerCallback ai req st = ([], st)"
  using assms
  by (auto simp add: timerCallback_def generateCompletion_def beginCompletion_def
           resumeCompletion_def Let_def split: sum.splits option.splits prod.splits)








section \<open>Properties of the debouncing\<close>

lemma advanceTo_not_due:
  "debounceTimer st = Some (due, req) \<Longrightarrow> t < due \<Longrightarrow> advanceTo ai t st = st"
  by (simp add: advanceTo_def)

lemma advanceTo_idle: "debounceTimer st = None \<Longrightarrow> advanceTo ai t st = st"
  by (simp add: advanceTo_def)

lemma runTriggers_burst:
  assumes "withinWindow ((t, r) # evs)"
    and "list_all (\<lambda>e. featureEnabled (snd e)) ((t, r) # evs)"
  shows "runTriggers ai st ((t, r) # evs)
         = (advanceTo ai t st)\<lparr>debounceTimer :=
              Some (fst (last ((t, r) # evs)) + 300, snd (last ((t, r) # evs)))\<rparr>"
  using assms
proof (induction evs arbitrary: t r st)
  case Nil
  then show ?case by (simp add: provideInlineCompletionItems_def)
next
  case (Cons e evs)
  obtain t2 r2 where e: "e = (t2, r2)" by (cases e)
  let ?st' = "provideInlineCompletionItems t r (advanceTo ai t st)"
  from Cons.prems e have en: "featureEnabled r" and lt: "t2 < t + 300"
    and w: "withinWindow ((t2, r2) # evs)"
    and a: "list_all (\<lambda>e. featureEnabled (snd e)) ((t2, r2) # evs)"
    by simp_all
  from en have st': "?st' = (advanceTo ai t st)\<lparr>debounceTimer := Some (t + 300, r)\<rparr>"
    by (simp add: provideInlineCompletionItems_def)
  then have "debounceTimer ?st' = Some (t + 300, r)" by simp
  from advanceTo_not_due [OF this lt] have adv: "advanceTo ai t2 ?st' = ?st'" .
  let ?last = "Some (fst (last ((t2, r2) # evs)) + 300, snd (last ((t2, r2) # evs)))"
  have l: "last ((t, r) # e # evs) = last ((t2, r2) # evs)" by (simp add: e)
  have "runTriggers ai st ((t, r) # e # evs) = runTriggers ai ?st' ((t2, r2) # evs)"
    by (simp add: e)
  also have "\<dots> = (advanceTo ai t2 ?st')\<lparr>debounceTimer := ?last\<rparr>"
    by (rule Cons.IH [OF w a])
  also have "\<dots> = ?st'\<lparr>debounceTimer := ?last\<rparr>"
    by (simp only: adv)
  also have "\<dots> = (advanceTo ai t st)\<lparr>debounceTimer := ?last\<rparr>"
    by (subst st') simp
  finally show ?case by (simp only: l)
qed

text \<open>
  C9: let the provider be idle (no timer armed) and let it be called a number of times with
  the feature on, each call less than 300 ms after the one before. Then the calls leave the
  state as it was, but for one armed timer that serves the last call: no generation call
  was issued and no earlier promise was resolved. When that timer goes off, the outcome is
  that of running the callback of the last call alone on the state before the calls.
\<close>

theorem debounce_only_last_trigger:
  assumes idle: "debounceTimer st = None"
    and nonempty: "evs \<noteq> []"
    and window: "withinWindow evs"
    and enabled: "list_all (\<lambda>e. featureEnabled (snd e)) evs"
  shows "runTriggers ai st evs = st\<lparr>debounceTimer := Some (fst (last evs) + 300, snd (last evs))\<rparr>
       \<and> fireTimer ai (runTriggers ai st evs)
           = (case timerCallback ai (snd (last evs)) st of
                (items, st') \<Rightarrow> st'\<lparr>resolved := resolved st' @ [(snd (last evs), items)]\<rparr>)"
proof -
  from nonempty obtain t r rest where evs: "evs = (t, r) # rest" by (cases evs) auto
  from runTriggers_burst [of t r rest ai st] window enabled evs idle
  have run: "runTriggers ai st evs
               = st\<lparr>debounceTimer := Some (fst (last evs) + 300, snd (last evs))\<rparr>"
    by (simp add: advanceTo_idle)
  have "st\<lparr>debounceTimer := None\<rparr> = st" using idle by simp
  then show ?thesis by (simp add: run fireTimer_def)
qed

lemma burst_facts:
  "burst \<noteq> []" "withinWindow burst" "list_all (\<lambda>e. featureEnabled (snd e)) burst"
  "last burst = (370, requestAt ''const x = '' 10 False False)"
  by (simp_all add: burst_def requestAt_def)

lemma last_callback:
  "timerCallback (answering ''5;'') (requestAt ''const x = '' 10 False False) initialState
     = ([''5;''], afterFirstRequest)"
  by code_simp

theorem debounce_only_last_trigger_witness:
  "runTriggers (answering ''5;'') initialState burst
     = initialState\<lparr>debounceTimer := Some (670, requestAt ''const x = '' 10 False False)\<rparr>
   \<and> generationCalls (fireTimer (answering ''5;'') (runTriggers (answering ''5;'') initialState burst))
       = [buildCompletionPrompt ''typescript'' ''const x = '' [] ''const x = '' []]
   \<and> resolved (fireTimer (answering ''5;'') (runTriggers (answering ''5;'') initialState burst))
       = [(requestAt ''const x = '' 10 False False, [''5;''])]"
proof -
  have idle: "debounceTimer initialState = None" by (simp add: initialState_def)
  have due: "(370::nat) + 300 = 670" by simp
  note both = debounce_only_last_trigger [OF idle burst_facts(1-3), of "answering ''5;''",
                unfolded burst_facts(4) fst_conv snd_conv last_callback prod.case due]
  have calls: "generationCalls (fireTimer (answering ''5;'') (runTriggers (answering ''5;'') initialState burst))
       = [buildCompletionPrompt ''typescript'' ''const x = '' [] ''const x = '' []]"
    by (simp only: both [THEN conjunct2]) (simp add: afterFirstRequest_def initialState_def)
  have promises: "resolved (fireTimer (answering ''5;'') (runTriggers (answering ''5;'') initialState burst))
       = [(requestAt ''const x = '' 10 False False, [''5;''])]"
    by (simp only: both [THEN conjunct2]) (simp add: afterFirstRequest_def initialState_def)
  from both [THEN conjunct1] calls promises show ?thesis
    by (intro conjI)
qed

section \<open>Properties of the polling adapter\<close>

lemma poll_step_nonTerminal:
  assumes "\<not> truthy result" "attempts < maxAttempts" "nonTerminal (status attempts)"
  shows "replicatePoll status check result attempts =
           (case replicatePoll status check result (attempts + 1) of (r, calls) \<Rightarrow> (r, check # calls))"
  using assms
  by (subst replicatePoll.simps) (auto simp add: nonTerminal_def split: sum.splits prod.splits)

lemma poll_skip_nonTerminal:
  assumes "\<not> truthy result" "a + n \<le> maxAttempts" "\<forall>i. a \<le> i \<and> i < a + n \<longrightarrow> nonTerminal (status i)"
  shows "replicatePoll status check result a =
           (case replicatePoll status check result (a + n) of (r, calls) \<Rightarrow> (r, replicate n check @ calls))"
  using assms
proof (induction n arbitrary: a)
  case 0
  then show ?case by (simp split: prod.splits)
next
  case (Suc n)
  from Suc.prems have step: "replicatePoll status check result a =
           (case replicatePoll status check result (a + 1) of (r, calls) \<Rightarrow> (r, check # calls))"
    by (intro poll_step_nonTerminal) auto
  from Suc.prems have "replicatePoll status check result (a + 1) =
           (case replicatePoll status check result (a + 1 + n) of (r, calls) \<Rightarrow> (r, replicate n check @ calls))"
    by (intro Suc.IH) auto
  with step show ?case by (simp split: prod.splits)
qed

lemma poll_done: "replicatePoll status check result maxAttempts = (Inr result, [])"
  by (subst replicatePoll.simps) simp

lemma poll_truthy: "truthy result \<Longrightarrow> replicatePoll status check result attempts = (Inr result, [])"
  by (subst replicatePoll.simps) simp

lemma poll_failed:
  assumes "\<not> truthy result" "attempts < maxAttempts" "status attempts = Inr (''failed'', out)"
  shows "replicatePoll status check result attempts = (Inl (Error ''Replicate prediction failed''), [check])"
  using assms by (subst replicatePoll.simps) simp

lemma poll_succeeded:
  assumes "\<not> truthy result" "attempts < maxAttempts" "status attempts = Inr (''succeeded'', out)"
    "truthy (Some (orEmpty (map_option concat out)))"
  shows "replicatePoll status check result attempts = (Inr (Some (orEmpty (map_option concat out))), [check])"
  using assms by (subst replicatePoll.simps) (simp add: poll_truthy)

lemma poll_noResult:
  assumes "\<not> truthy result" "a \<le> maxAttempts" "\<forall>i. a \<le> i \<and> i < maxAttempts \<longrightarrow> noResult (status i)"
  shows "\<exists>r. \<not> truthy r \<and> replicatePoll status check result a = (Inr r, replicate (maxAttempts - a) check)"
  using assms
proof (induction "maxAttempts - a" arbitrary: a result)
  case 0
  then have "a = maxAttempts" by simp
  with 0 show ?case by (simp add: poll_done)
next
  case (Suc n)
  then have lt: "a < maxAttempts" by simp
  with Suc.prems have nr: "noResult (status a)" by simp
  then obtain state out where reply: "status a = Inr (state, out)"
    by (auto simp add: noResult_def split: sum.splits)
  let ?result' = "if state = ''succeeded'' then Some (orEmpty (map_option concat out)) else result"
  from nr reply Suc.prems(1) have falsy: "\<not> truthy ?result'"
    by (auto simp add: noResult_def truthy_def)
  from nr reply have nf: "state \<noteq> ''failed''" by (simp add: noResult_def)
  have step: "replicatePoll status check result a =
           (case replicatePoll status check ?result' (a + 1) of (r, calls) \<Rightarrow> (r, check # calls))"
    using Suc.prems(1) lt reply nf by (subst replicatePoll.simps) simp
  from Suc.hyps(2) lt have n: "n = maxAttempts - (a + 1)" by simp
  from Suc.hyps(1) [OF n falsy] lt Suc.prems(3)
  obtain r where "\<not> truthy r"
    and "replicatePoll status check ?result' (a + 1) = (Inr r, replicate (maxAttempts - (a + 1)) check)"
    by auto
  with step lt have "replicatePoll status check result a = (Inr r, replicate (maxAttempts - a) check)"
    by (simp add: Suc_diff_Suc flip: replicate_Suc)
  with \<open>\<not> truthy r\<close> show ?case by blast
qed

lemma poll_skip_from_start:
  assumes "\<not> truthy result" "n \<le> maxAttempts" "\<forall>i<n. nonTerminal (status i)"
  shows "replicatePoll status check result 0 =
           (case replicatePoll status check result n of (r, calls) \<Rightarrow> (r, replicate n check @ calls))"
  using poll_skip_nonTerminal [of result 0 n status check] assms by simp

lemma statusChecks_polls:
  "statusChecks (createRequest cfg prompt maxTok # replicate n (statusRequest cfg pid)) = n"
  by (induction n) (simp_all add: statusChecks_def createRequest_def statusRequest_def)

lemma generateReplicateResponse_polls:
  assumes "truthy (replicateApiKey cfg)" and "replicateCreate be = Inr pid"
  shows "generateReplicateResponse cfg be prompt maxTok =
           (case replicatePoll (replicateStatus be) (statusRequest cfg pid) None 0 of
              (r, calls) \<Rightarrow>
                (case r of Inl e \<Rightarrow> Inl e | Inr result \<Rightarrow> Inr (orEmpty result),
                 createRequest cfg prompt maxTok # calls))"
  using assms
  by (simp add: generateReplicateResponse_def split: prod.splits sum.splits)

text \<open>
  C6: with a key configured and the prediction created, (1) if the first two status checks
  are not terminal and the third reports \<open>succeeded\<close> with the fragments \<open>a\<close>, \<open>b\<close>, the
  adapter returns \<open>ab\<close> after exactly 3 status checks; (2) if none of the first 30 status
  checks is terminal, it makes exactly 30 status checks and returns the empty string;
  (3) if a status check within the cap reports \<open>failed\<close> after non-terminal ones, it fails
  with the error \<open>Replicate prediction failed\<close>, at that check.
\<close>

theorem replicate_polling:
  assumes key: "truthy (replicateApiKey cfg)" and created: "replicateCreate be = Inr pid"
  shows "(nonTerminal (replicateStatus be 0) \<and> nonTerminal (replicateStatus be 1)
          \<and> replicateStatus be 2 = Inr (''succeeded'', Some [''a'', ''b''])
          \<longrightarrow> fst (generateReplicateResponse cfg be prompt maxTok) = Inr ''ab''
              \<and> statusChecks (snd (generateReplicateResponse cfg be prompt maxTok)) = 3)
       \<and> ((\<forall>i<30. nonTerminal (replicateStatus be i))
          \<longrightarrow> fst (generateReplicateResponse cfg be prompt maxTok) = Inr []
              \<and> statusChecks (snd (generateReplicateResponse cfg be prompt maxTok)) = 30)
       \<and> (\<forall>k<30. (\<forall>i<k. nonTerminal (replicateStatus be i))
                  \<and> (\<exists>out. replicateStatus be k = Inr (''failed'', out))
          \<longrightarrow> fst (generateReplicateResponse cfg be prompt maxTok)
                = Inl (Error ''Replicate prediction failed'')
              \<and> statusChecks (snd (generateReplicateResponse cfg be prompt maxTok)) = k + 1)"
proof (intro conjI impI allI)
  let ?status = "replicateStatus be"
  let ?check = "statusRequest cfg pid"
  note unfold = generateReplicateResponse_polls [OF key created]
  have none: "\<not> truthy None" by (simp add: truthy_def)
  {
    assume h: "nonTerminal (?status 0) \<and> nonTerminal (?status 1)
               \<and> ?status 2 = Inr (''succeeded'', Some [''a'', ''b''])"
    then have "\<forall>i<2. nonTerminal (?status i)"
      by (auto simp add: less_2_cases_iff)
    from poll_skip_from_start [OF none _ this, of ?check]
    have "replicatePoll ?status ?check None 0 =
            (case replicatePoll ?status ?check None 2 of (r, calls) \<Rightarrow> (r, replicate 2 ?check @ calls))"
      by (simp add: maxAttempts_def)
    moreover from h have "replicatePoll ?status ?check None 2 = (Inr (Some ''ab''), [?check])"
      using poll_succeeded [OF none, of 2 ?status "Some [''a'', ''b'']" ?check]
      by (simp add: maxAttempts_def truthy_def orEmpty_def)
    ultimately have "replicatePoll ?status ?check None 0 = (Inr (Some ''ab''), replicate 3 ?check)"
      by (simp add: numeral_3_eq_3 numeral_2_eq_2)
    then show "fst (generateReplicateResponse cfg be prompt maxTok) = Inr ''ab''"
      and "statusChecks (snd (generateReplicateResponse cfg be prompt maxTok)) = 3"
      by (simp_all add: unfold orEmpty_def statusChecks_polls del: replicate.simps)
  }
  {
    assume h: "\<forall>i<30. nonTerminal (?status i)"
    from poll_skip_from_start [OF none _ this, of ?check]
    have "replicatePoll ?status ?check None 0 = (Inr None, replicate 30 ?check)"
      by (simp add: maxAttempts_def poll_done [unfolded maxAttempts_def])
    then show "fst (generateReplicateResponse cfg be prompt maxTok) = Inr []"
      and "statusChecks (snd (generateReplicateResponse cfg be prompt maxTok)) = 30"
      by (simp_all add: unfold orEmpty_def statusChecks_polls del: replicate.simps)
  }
  {
    fix k :: nat
    assume k: "k < 30"
      and h: "(\<forall>i<k. nonTerminal (?status i)) \<and> (\<exists>out. ?status k = Inr (''failed'', out))"
    then obtain out where failed: "?status k = Inr (''failed'', out)" by blast
    from h have "\<forall>i<k. nonTerminal (?status i)" by simp
    from poll_skip_from_start [OF none _ this, of ?check] k
    have "replicatePoll ?status ?check None 0 =
            (case replicatePoll ?status ?check None k of (r, calls) \<Rightarrow> (r, replicate k ?check @ calls))"
      by (simp add: maxAttempts_def)
    moreover from k failed
    have "replicatePoll ?status ?check None k = (Inl (Error ''Replicate prediction failed''), [?check])"
      by (intro poll_failed [OF none]) (simp_all add: maxAttempts_def)
    ultimately have "replicatePoll ?status ?check None 0
                       = (Inl (Error ''Replicate prediction failed''), replicate (k + 1) ?check)"
      by (simp add: replicate_append_same)
    then show "fst (generateReplicateResponse cfg be prompt maxTok)
                 = Inl (Error ''Replicate prediction failed'')"
      and "statusChecks (snd (generateReplicateResponse cfg be prompt maxTok)) = k + 1"
      by (simp_all add: unfold statusChecks_polls del: replicate.simps)
  }
qed

lemma replicateSettings_key: "truthy (replicateApiKey replicateSettings)"
  by (simp add: replicateSettings_def noSettings_def truthy_def)

lemma backendWith_created: "replicateCreate (backendWith status) = Inr ''p1''"
  by (simp add: backendWith_def)

lemma backendWith_status: "replicateStatus (backendWith status) = status"
  by (simp add: backendWith_def)

theorem replicate_polling_witness:
  "fst (generateReplicateResponse replicateSettings (backendWith succeedsOnThird) ''hello'' 2048) = Inr ''ab''
   \<and> statusChecks (snd (generateReplicateResponse replicateSettings (backendWith succeedsOnThird) ''hello'' 2048)) = 3
   \<and> fst (generateReplicateResponse replicateSettings (backendWith neverTerminal) ''hello'' 2048) = Inr []
   \<and> statusChecks (snd (generateReplicateResponse replicateSettings (backendWith neverTerminal) ''hello'' 2048)) = 30
   \<and> fst (generateReplicateResponse replicateSettings (backendWith failsOnSecond) ''hello'' 2048)
       = Inl (Error ''Replicate prediction failed'')
   \<and> statusChecks (snd (generateReplicateResponse replicateSettings (backendWith failsOnSecond) ''hello'' 2048)) = 2"
proof -
  note t = replicate_polling [OF replicateSettings_key backendWith_created, of _ "''hello''" 2048]
  have third: "nonTerminal (succeedsOnThird 0) \<and> nonTerminal (succeedsOnThird 1)
        \<and> succeedsOnThird 2 = Inr (''succeeded'', Some [''a'', ''b''])"
    by (simp add: succeedsOnThird_def nonTerminal_def)
  have never: "\<forall>i<30. nonTerminal (neverTerminal i)"
    by (simp add: neverTerminal_def nonTerminal_def)
  have second: "(\<forall>i<1. nonTerminal (failsOnSecond i)) \<and> (\<exists>out. failsOnSecond 1 = Inr (''failed'', out))"
    by (simp add: failsOnSecond_def nonTerminal_def)
  from t [of succeedsOnThird, THEN conjunct1] third
  have a: "fst (generateReplicateResponse replicateSettings (backendWith succeedsOnThird) ''hello'' 2048) = Inr ''ab''
     \<and> statusChecks (snd (generateReplicateResponse replicateSettings (backendWith succeedsOnThird) ''hello'' 2048)) = 3"
    by (simp only: backendWith_status)
  from t [of neverTerminal, THEN conjunct2, THEN conjunct1] never
  have b: "fst (generateReplicateResponse replicateSettings (backendWith neverTerminal) ''hello'' 2048) = Inr []
     \<and> statusChecks (snd (generateReplicateResponse replicateSettings (backendWith neverTerminal) ''hello'' 2048)) = 30"
    by (simp only: backendWith_status)
  from t [of failsOnSecond, THEN conjunct2, THEN conjunct2, rule_format, of 1] second
  have c: "fst (generateReplicateResponse replicateSettings (backendWith failsOnSecond) ''hello'' 2048)
       = Inl (Error ''Replicate prediction failed'')
     \<and> statusChecks (snd (generateReplicateResponse replicateSettings (backendWith failsOnSecond) ''hello'' 2048)) = 2"
    by (simp add: backendWith_status)
  from a b c show ?thesis by simp
qed

text \<open>
  C10: with a key configured and the prediction created, a status check within the cap that
  reports \<open>succeeded\<close> with an output that is absent or joins to the empty string does not
  end the polling: the loop goes on to the next check as after a status that is not
  terminal. When every one of the first 30 status checks is without result in this sense
  (not \<open>failed\<close>, and \<open>succeeded\<close> only with such an output), the adapter makes exactly 30
  status checks and returns the empty string.
\<close>

theorem replicate_empty_success_keeps_polling:
  assumes key: "truthy (replicateApiKey cfg)" and created: "replicateCreate be = Inr pid"
    and k: "k < 30"
    and empty: "replicateStatus be k = Inr (''succeeded'', out)" "orEmpty (map_option concat out) = []"
  shows "replicatePoll (replicateStatus be) (statusRequest cfg pid) None k
           = (case replicatePoll (replicateStatus be) (statusRequest cfg pid) (Some []) (k + 1) of
                (r, calls) \<Rightarrow> (r, statusRequest cfg pid # calls))
       \<and> ((\<forall>i<30. noResult (replicateStatus be i))
          \<longrightarrow> fst (generateReplicateResponse cfg be prompt maxTok) = Inr []
              \<and> statusChecks (snd (generateReplicateResponse cfg be prompt maxTok)) = 30)"
proof (intro conjI impI)
  have none: "\<not> truthy None" by (simp add: truthy_def)
  from k empty show "replicatePoll (replicateStatus be) (statusRequest cfg pid) None k
           = (case replicatePoll (replicateStatus be) (statusRequest cfg pid) (Some []) (k + 1) of
                (r, calls) \<Rightarrow> (r, statusRequest cfg pid # calls))"
    by (subst replicatePoll.simps) (simp add: truthy_def maxAttempts_def)
  {
    assume "\<forall>i<30. noResult (replicateStatus be i)"
    then have "\<forall>i. 0 \<le> i \<and> i < maxAttempts \<longrightarrow> noResult (replicateStatus be i)"
      by (simp add: maxAttempts_def)
    from poll_noResult [OF none _ this, of "statusRequest cfg pid"]
    obtain r where "\<not> truthy r"
      and "replicatePoll (replicateStatus be) (statusRequest cfg pid) None 0
             = (Inr r, replicate 30 (statusRequest cfg pid))"
      by (auto simp add: maxAttempts_def)
    then show "fst (generateReplicateResponse cfg be prompt maxTok) = Inr []"
      and "statusChecks (snd (generateReplicateResponse cfg be prompt maxTok)) = 30"
      by (simp_all add: generateReplicateResponse_polls [OF key created] statusChecks_polls
                        truthy_def orEmpty_def del: replicate.simps split: option.splits)
  }
qed

theorem replicate_empty_success_keeps_polling_witness:
  "replicatePoll succeedsEmpty (statusRequest replicateSettings ''p1'') None 4
     = (case replicatePoll succeedsEmpty (statusRequest replicateSettings ''p1'') (Some []) 5 of
          (r, calls) \<Rightarrow> (r, statusRequest replicateSettings ''p1'' # calls))
   \<and> fst (generateReplicateResponse replicateSettings (backendWith succeedsEmpty) ''hello'' 2048) = Inr []
   \<and> statusChecks (snd (generateReplicateResponse replicateSettings (backendWith succeedsEmpty) ''hello'' 2048)) = 30"
proof -
  have k: "(4::nat) < 30" by simp
  have empty: "replicateStatus (backendWith succeedsEmpty) 4 = Inr (''succeeded'', Some [])"
    "orEmpty (map_option concat (Some [])) = []"
    by (simp_all add: backendWith_def succeedsEmpty_def orEmpty_def)
  have all: "\<forall>i<30. noResult (replicateStatus (backendWith succeedsEmpty) i)"
    by (simp add: backendWith_def succeedsEmpty_def noResult_def orEmpty_def)
  from replicate_empty_success_keeps_polling
         [OF replicateSettings_key backendWith_created k empty, of "''hello''" 2048] all
  show ?thesis by (simp add: backendWith_status)
qed

section \<open>Properties of the credential checks\<close>

text \<open>
  The adapters that read the key at the time of the call fail with the missing-key error
  and send nothing when no key is set; so do the two adapters that test their client handle,
  on a service that holds no handle.
\<close>

lemma missing_key_fails_without_request:
  "\<not> truthy (perplexityApiKey cfg) \<Longrightarrow>
     generatePerplexityResponse cfg be prompt maxTok = (Inl (Error ''Perplexity API key not configured''), [])"
  "\<not> truthy (togetheraiApiKey cfg) \<Longrightarrow>
     generateTogetherAIResponse cfg be prompt maxTok = (Inl (Error ''Together AI API key not configured''), [])"
  "\<not> truthy (replicateApiKey cfg) \<Longrightarrow>
     generateReplicateResponse cfg be prompt maxTok = (Inl (Error ''Replicate API key not configured''), [])"
  "groqClient svc = None \<Longrightarrow>
     generateGroqResponse svc cfg be prompt maxTok = (Inl (Error ''Groq API key not configured''), [])"
  "hfClient svc = None \<Longrightarrow>
     generateHuggingFaceResponse svc cfg be prompt maxTok = (Inl (Error ''HuggingFace API key not configured''), [])"
  by (simp_all add: generatePerplexityResponse_def generateTogetherAIResponse_def
        generateReplicateResponse_def generateGroqResponse_def generateHuggingFaceResponse_def)

lemma newService_without_keys:
  "\<not> truthy (groqApiKey cfg) \<Longrightarrow> groqClient (newService cfg) = None"
  "\<not> truthy (huggingfaceApiKey cfg) \<Longrightarrow> hfClient (newService cfg) = None"
  by (simp_all add: newService_def initializeClients_def Let_def)

text \<open>
  C5: the Groq adapter tests the client handle, not the setting, and a change of the settings
  that removes the key leaves the handle in place. A service built with a Groq key, then
  told that the key was removed, answers a call for the provider \<open>groq\<close> by sending a
  request with the old key; no missing-key error is raised.
\<close>

theorem removed_groq_key_still_sends_request:
  "generateResponse
     (configurationChanged noSettings (newService (noSettings\<lparr>groqApiKey := Some ''gsk_old''\<rparr>)))
     noSettings (backendWith neverTerminal) ''hello''
   = (Inr ''hi'', [GroqCreate ''gsk_old'' ''llama-3.3-70b-versatile'' ''hello'' 2048])"
  by (simp add: generateResponse_def generateGroqResponse_def configurationChanged_def newService_def
        initializeClients_def noSettings_def backendWith_def getOr_def truthy_def orEmpty_def
        afterCall_def Let_def)

end
